theory Spec2Isabelle
  imports Complex_Main "HOL-Library.Sublist" "HOL-Library.AList"
begin

section \<open>Strings\<close>

text \<open>
  Python text and byte strings are modelled as \<^typ>\<open>string\<close>, a text being the sequence
  of its UTF-8 bytes. Equality of texts, and containment of an ASCII pattern, are then
  equality and containment of the byte sequences. The case conversions \<^verbatim>\<open>str.lower\<close> and
  \<^verbatim>\<open>str.upper\<close> follow the Unicode tables of the Python runtime; they are operations of
  the library, taken as they are (fields \<open>str_lower\<close> and \<open>str_upper\<close> below).
\<close>

text \<open>\<^verbatim>\<open>Series.str.contains(pat)\<close> for a pattern without regex metacharacters.\<close>

definition str_contains :: "string \<Rightarrow> string \<Rightarrow> bool" where
  "str_contains s pat = sublist pat s"

section \<open>Tables\<close>

text \<open>
  A \<^verbatim>\<open>pandas.DataFrame\<close> as the program uses it: the column labels in order, and the
  rows in order, a row giving the cell under each label. Labels are unique, as
  \<^verbatim>\<open>read_csv\<close> produces them. The cell type \<open>'v\<close> is left open; what the program asks
  of a cell (its text under \<^verbatim>\<open>astype(str)\<close>, its value under \<^verbatim>\<open>int(...)\<close>, its
  rendering by \<^verbatim>\<open>to_csv\<close>), the CSV parser and the case conversions of text are
  operations of the library, collected in the record \<open>pandas\<close>.
\<close>

type_synonym 'v row = "string \<Rightarrow> 'v"

record 'v DataFrame =
  columns :: "string list"
  rows :: "'v row list"

datatype py_exception =
    HTTPError "nat option"
  | OtherException string

record 'v pandas =
  str_lower :: "string \<Rightarrow> string"
  str_upper :: "string \<Rightarrow> string"
  astype_str :: "'v \<Rightarrow> string"
  py_int :: "'v \<Rightarrow> int option"
  csv_field :: "'v \<Rightarrow> string"
  read_csv :: "string \<Rightarrow> py_exception + 'v DataFrame"

text \<open>\<^verbatim>\<open>pd.DataFrame()\<close>\<close>

definition empty_frame :: "'v DataFrame" where
  "empty_frame = \<lparr>columns = [], rows = []\<rparr>"

text \<open>\<^verbatim>\<open>df.empty\<close>: some axis has length 0.\<close>

definition df_empty :: "'v DataFrame \<Rightarrow> bool" where
  "df_empty df = (columns df = [] \<or> rows df = [])"

text \<open>\<^verbatim>\<open>len(df)\<close>\<close>

definition len :: "'v DataFrame \<Rightarrow> nat" where
  "len df = length (rows df)"

section \<open>filter\_sessions\<close>

text \<open>\<^verbatim>\<open>{c.lower(): c for c in df.columns}\<close>: a later column overrides an earlier one.\<close>

definition lower_cols :: "'v pandas \<Rightarrow> string list \<Rightarrow> (string \<rightharpoonup> string)" where
  "lower_cols pd cs = fold (\<lambda>c m. m(str_lower pd c \<mapsto> c)) cs Map.empty"

text \<open>\<^verbatim>\<open>m |= s\<close> on boolean Series over the same index.\<close>

definition series_or :: "bool list \<Rightarrow> bool list \<Rightarrow> bool list" where
  "series_or m s = map2 (\<or>) m s"

text \<open>\<^verbatim>\<open>if s is not None: m |= f(s)\<close>\<close>

definition or_if_present :: "bool list \<Rightarrow> string list option \<Rightarrow> (string \<Rightarrow> bool) \<Rightarrow> bool list" where
  "or_if_present m s f = (case s of None \<Rightarrow> m | Some xs \<Rightarrow> series_or m (map f xs))"

text \<open>\<^verbatim>\<open>df.loc[m]\<close>: the rows whose mask entry is true, in order.\<close>

definition loc :: "'v DataFrame \<Rightarrow> bool list \<Rightarrow> 'v DataFrame" where
  "loc df m = df\<lparr>rows := map snd (filter fst (zip m (rows df)))\<rparr>"

text \<open>The mask \<open>m\<close> of \<^verbatim>\<open>filter_sessions\<close> (lines 62 to 71 of the source).\<close>

definition selection :: "'v pandas \<Rightarrow> 'v DataFrame \<Rightarrow> string \<Rightarrow> bool list" where
  "selection pd df scope =
     (let cols = lower_cols pd (columns df);
          sn = (case cols ''session_name'' of
                  Some c \<Rightarrow> Some (map (\<lambda>r. str_lower pd (astype_str pd (r c))) (rows df))
                | None \<Rightarrow> None);
          st = (case cols ''session_type'' of
                  Some c \<Rightarrow> Some (map (\<lambda>r. str_upper pd (astype_str pd (r c))) (rows df))
                | None \<Rightarrow> None);
          m0 = replicate (length (rows df)) False;
          m1 = (if scope = ''RACE'' \<or> scope = ''RACE_SPRINT''
                then or_if_present (or_if_present m0 sn (\<lambda>x. x = ''race'')) st (\<lambda>x. x = ''R'')
                else m0);
          m2 = (if scope = ''RACE_SPRINT''
                then or_if_present (or_if_present m1 sn (\<lambda>x. str_contains x ''sprint''))
                       st (\<lambda>x. x \<in> {''S'', ''SPRINT''})
                else m1)
      in m2)"

definition filter_sessions :: "'v pandas \<Rightarrow> 'v DataFrame \<Rightarrow> string \<Rightarrow> 'v DataFrame" where
  "filter_sessions pd df scope =
     (if df_empty df \<or> scope = ''ALL'' then df
      else let m = selection pd df scope
           in if list_ex id m then loc df m else df)"

subsection \<open>The selection in the words of the specification\<close>

text \<open>
  The specification describes the selection row by row: a name or type column is found
  by comparing labels without regard to case, and the row's text in it is compared
  without regard to case. Comparing without regard to case is what the program does:
  the text is converted by the library (to lower case for labels and session names, to
  upper case for session types) and compared with the literal, which is written in that
  case. These definitions follow that wording; they are compared with \<open>selection\<close>
  below.
\<close>

definition equals_lower :: "'v pandas \<Rightarrow> string \<Rightarrow> string \<Rightarrow> bool" where
  "equals_lower pd s lit = (str_lower pd s = lit)"

definition contains_lower :: "'v pandas \<Rightarrow> string \<Rightarrow> string \<Rightarrow> bool" where
  "contains_lower pd s lit = sublist lit (str_lower pd s)"

definition equals_upper :: "'v pandas \<Rightarrow> string \<Rightarrow> string \<Rightarrow> bool" where
  "equals_upper pd s lit = (str_upper pd s = lit)"

text \<open>The column whose label is \<open>name\<close> up to case; the last one if there are several.\<close>

definition ci_column :: "'v pandas \<Rightarrow> string list \<Rightarrow> string \<Rightarrow> string option" where
  "ci_column pd cs name = find (\<lambda>c. equals_lower pd c name) (rev cs)"

definition session_name_of :: "'v pandas \<Rightarrow> 'v DataFrame \<Rightarrow> 'v row \<Rightarrow> string option" where
  "session_name_of pd df r =
     map_option (\<lambda>c. astype_str pd (r c)) (ci_column pd (columns df) ''session_name'')"

definition session_type_of :: "'v pandas \<Rightarrow> 'v DataFrame \<Rightarrow> 'v row \<Rightarrow> string option" where
  "session_type_of pd df r =
     map_option (\<lambda>c. astype_str pd (r c)) (ci_column pd (columns df) ''session_type'')"

text \<open>A property of a field that may be absent: false when the column is absent.\<close>

definition holds :: "string option \<Rightarrow> (string \<Rightarrow> bool) \<Rightarrow> bool" where
  "holds x P = (case x of None \<Rightarrow> False | Some s \<Rightarrow> P s)"

definition race_row :: "'v pandas \<Rightarrow> 'v DataFrame \<Rightarrow> 'v row \<Rightarrow> bool" where
  "race_row pd df r =
     (holds (session_name_of pd df r) (\<lambda>n. equals_lower pd n ''race'') \<or>
      holds (session_type_of pd df r) (\<lambda>t. equals_upper pd t ''R''))"

definition sprint_row :: "'v pandas \<Rightarrow> 'v DataFrame \<Rightarrow> 'v row \<Rightarrow> bool" where
  "sprint_row pd df r =
     (holds (session_name_of pd df r) (\<lambda>n. contains_lower pd n ''sprint'') \<or>
      holds (session_type_of pd df r)
        (\<lambda>t. equals_upper pd t ''S'' \<or> equals_upper pd t ''SPRINT''))"

definition scope_selects :: "'v pandas \<Rightarrow> 'v DataFrame \<Rightarrow> string \<Rightarrow> 'v row \<Rightarrow> bool" where
  "scope_selects pd df scope r =
     (((scope = ''RACE'' \<or> scope = ''RACE_SPRINT'') \<and> race_row pd df r) \<or>
      (scope = ''RACE_SPRINT'' \<and> sprint_row pd df r))"

section \<open>Configuration and the outside world\<close>

text \<open>The module constants of the source (lines 12 to 20), as one record.\<close>

record config =
  BASE :: string
  SESSION_SCOPE :: string
  INCLUDE_MEETINGS :: bool
  DOWNLOAD_LAPS :: bool
  TIMEOUT :: nat
  RETRIES :: nat
  BACKOFF :: real
  OUT_DIR :: string
  OVERWRITE :: bool

definition source_config :: config where
  "source_config =
     \<lparr>BASE = ''https://api.openf1.org/v1'', SESSION_SCOPE = ''RACE_SPRINT'',
      INCLUDE_MEETINGS = True, DOWNLOAD_LAPS = False, TIMEOUT = 60, RETRIES = 4,
      BACKOFF = 2, OUT_DIR = ''data/openf1_full'', OVERWRITE = True\<rparr>"

text \<open>A query parameter value: the program passes integers and the text \<^verbatim>\<open>"true"\<close>.\<close>

datatype pval = PInt int | PStr string

record request =
  url :: string
  query :: "(string \<times> pval) list"
  timeout :: nat

text \<open>
  What one call of \<^verbatim>\<open>requests.get\<close> does: it raises, or it returns a response with a
  status code and a body.
\<close>

datatype reply = Raises py_exception | Response nat string

text \<open>
  The \<^verbatim>\<open>RuntimeError\<close> of line 45, with the endpoint, the parameters sent and the last
  exception caught (\<^verbatim>\<open>None\<close> if there was none).
\<close>

datatype fetch_error = RuntimeError string "(string \<times> pval) list" "py_exception option"

datatype log_line =
    NoYears
  | SessionsError int fetch_error
  | EndpointWarn int int string fetch_error

text \<open>
  The world the program acts on. \<open>replies\<close> is what the network will answer to the
  coming calls of \<^verbatim>\<open>requests.get\<close>, in order; when it is used up the network is
  unreachable. \<open>requests\<close> and \<open>sleeps\<close> record the calls of \<^verbatim>\<open>requests.get\<close> and of
  \<^verbatim>\<open>time.sleep\<close> made so far, \<open>files\<close> maps a path to the bytes of the file there, and
  \<open>stderr\<close> holds the lines printed to standard error. File operations succeed;
  directories and the progress lines on standard output are not modelled.
\<close>

record world =
  replies :: "reply list"
  requests :: "request list"
  sleeps :: "real list"
  files :: "string \<rightharpoonup> string"
  stderr :: "log_line list"

definition requests_get :: "request \<Rightarrow> world \<Rightarrow> reply \<times> world" where
  "requests_get q w =
     (case replies w of
        [] \<Rightarrow> (Raises (OtherException ''ConnectionError''), w\<lparr>requests := requests w @ [q]\<rparr>)
      | r # rs \<Rightarrow> (r, w\<lparr>replies := rs, requests := requests w @ [q]\<rparr>))"

definition time_sleep :: "real \<Rightarrow> world \<Rightarrow> world" where
  "time_sleep d w = w\<lparr>sleeps := sleeps w @ [d]\<rparr>"

definition print_stderr :: "log_line \<Rightarrow> world \<Rightarrow> world" where
  "print_stderr l w = w\<lparr>stderr := stderr w @ [l]\<rparr>"

section \<open>fetch\_csv\<close>

text \<open>\<^verbatim>\<open>bytes.strip()\<close>: ASCII white space is removed at both ends.\<close>

definition is_space :: "char \<Rightarrow> bool" where
  "is_space c = (c \<in> {CHR 0x09, CHR 0x0A, CHR 0x0B, CHR 0x0C, CHR 0x0D, CHR 0x20})"

definition bytes_strip :: "string \<Rightarrow> string" where
  "bytes_strip s = rev (dropWhile is_space (rev (dropWhile is_space s)))"

text \<open>The outcome of one pass through the loop body: a value is returned, or an
  exception is kept in \<^verbatim>\<open>err\<close> and the loop goes on.\<close>

datatype 'a attempt = Return 'a | Failed py_exception

text \<open>The two \<^verbatim>\<open>except\<close> clauses (lines 38 to 43).\<close>

definition handle :: "py_exception \<Rightarrow> 'v DataFrame attempt" where
  "handle e =
     (case e of
        HTTPError st \<Rightarrow> if st = Some 400 \<or> st = Some 404 then Return empty_frame else Failed e
      | OtherException _ \<Rightarrow> Failed e)"

text \<open>The \<^verbatim>\<open>try\<close> body (lines 31 to 37) on the reply of \<^verbatim>\<open>requests.get\<close>;
  \<^verbatim>\<open>raise_for_status\<close> raises for a status from 400 to 599.\<close>

definition attempt :: "'v pandas \<Rightarrow> reply \<Rightarrow> 'v DataFrame attempt" where
  "attempt pd rep =
     (case rep of
        Raises e \<Rightarrow> handle e
      | Response status_code content \<Rightarrow>
          if status_code = 204 \<or> status_code = 400 then Return empty_frame
          else if 400 \<le> status_code \<and> status_code < 600 then handle (HTTPError (Some status_code))
          else if content = [] \<or> bytes_strip content = [] then Return empty_frame
          else (case read_csv pd content of Inl e \<Rightarrow> handle e | Inr df \<Rightarrow> Return df))"

text \<open>The loop \<^verbatim>\<open>for a in range(RETRIES)\<close>, over the attempt numbers still to run.\<close>

fun fetch_loop ::
  "config \<Rightarrow> 'v pandas \<Rightarrow> string \<Rightarrow> request \<Rightarrow> nat list \<Rightarrow> py_exception option \<Rightarrow> world
     \<Rightarrow> (fetch_error + 'v DataFrame) \<times> world" where
  "fetch_loop cfg pd endpoint q [] err w = (Inl (RuntimeError endpoint (query q) err), w)"
| "fetch_loop cfg pd endpoint q (a # as) err w =
     (case requests_get q w of
        (rep, w1) \<Rightarrow>
          (case attempt pd rep of
             Return df \<Rightarrow> (Inr df, w1)
           | Failed e \<Rightarrow>
               fetch_loop cfg pd endpoint q as (Some e) (time_sleep (BACKOFF cfg ^ a) w1)))"

definition fetch_csv ::
  "config \<Rightarrow> 'v pandas \<Rightarrow> string \<Rightarrow> (string \<times> pval) list \<Rightarrow> world
     \<Rightarrow> (fetch_error + 'v DataFrame) \<times> world" where
  "fetch_csv cfg pd endpoint params w =
     (let url = BASE cfg @ ''/'' @ endpoint;
          params = AList.update ''csv'' (PStr ''true'') params
      in fetch_loop cfg pd endpoint \<lparr>url = url, query = params, timeout = TIMEOUT cfg\<rparr>
           [0..<RETRIES cfg] None w)"

subsection \<open>Transient failures in the words of the specification\<close>

text \<open>A connection error or timeout, or an HTTP error status other than 400 and 404.\<close>

fun transient :: "reply \<Rightarrow> bool" where
  "transient (Raises (OtherException _)) = True"
| "transient (Raises (HTTPError st)) = (st \<noteq> Some 400 \<and> st \<noteq> Some 404)"
| "transient (Response st body) = (400 \<le> st \<and> st < 600 \<and> st \<noteq> 400 \<and> st \<noteq> 404)"

text \<open>The exception a failed reply leaves in \<^verbatim>\<open>err\<close>.\<close>

fun error_of :: "reply \<Rightarrow> py_exception" where
  "error_of (Raises e) = e"
| "error_of (Response st body) = HTTPError (Some st)"

definition last_error :: "reply list \<Rightarrow> py_exception option" where
  "last_error rs = (case rev rs of [] \<Rightarrow> None | r # _ \<Rightarrow> Some (error_of r))"

text \<open>The request \<^verbatim>\<open>fetch_csv\<close> sends.\<close>

definition request_of :: "config \<Rightarrow> string \<Rightarrow> (string \<times> pval) list \<Rightarrow> request" where
  "request_of cfg endpoint params =
     \<lparr>url = BASE cfg @ ''/'' @ endpoint,
      query = AList.update ''csv'' (PStr ''true'') params,
      timeout = TIMEOUT cfg\<rparr>"

text \<open>The delays \<^verbatim>\<open>BACKOFF ** a\<close> for the first \<open>n\<close> attempts.\<close>

definition delays :: "config \<Rightarrow> nat \<Rightarrow> real list" where
  "delays cfg n = map (\<lambda>a. BACKOFF cfg ^ a) [0..<n]"

section \<open>available\_years\<close>

fun years_loop ::
  "config \<Rightarrow> 'v pandas \<Rightarrow> int list \<Rightarrow> int list \<Rightarrow> world \<Rightarrow> int list \<times> world" where
  "years_loop cfg pd [] yrs w = (yrs, w)"
| "years_loop cfg pd (y # ys) yrs w =
     (case fetch_csv cfg pd ''sessions'' [(''year'', PInt y)] w of
        (Inr df, w1) \<Rightarrow> years_loop cfg pd ys (if \<not> df_empty df then yrs @ [y] else yrs) w1
      | (Inl e, w1) \<Rightarrow> years_loop cfg pd ys yrs w1)"

text \<open>\<^verbatim>\<open>end_to or datetime.utcnow().year\<close>: an absent or zero \<^verbatim>\<open>end_to\<close> is the
  current year \<open>now\<close>.\<close>

definition end_year :: "int \<Rightarrow> int option \<Rightarrow> int" where
  "end_year now end_to = (case end_to of None \<Rightarrow> now | Some e \<Rightarrow> if e = 0 then now else e)"

definition available_years ::
  "config \<Rightarrow> 'v pandas \<Rightarrow> int \<Rightarrow> int \<Rightarrow> int option \<Rightarrow> world \<Rightarrow> int list \<times> world" where
  "available_years cfg pd now start_from end_to w =
     years_loop cfg pd [start_from..end_year now end_to] [] w"

subsection \<open>The probes of a discovery\<close>

text \<open>
  What discovery observes: for each year in turn, the outcome of its one call
  \<^verbatim>\<open>fetch_csv("sessions", year=y)\<close>, made in the world the earlier calls left.
\<close>

fun probes ::
  "config \<Rightarrow> 'v pandas \<Rightarrow> int list \<Rightarrow> world \<Rightarrow> (int \<times> (fetch_error + 'v DataFrame)) list" where
  "probes cfg pd [] w = []"
| "probes cfg pd (y # ys) w =
     (case fetch_csv cfg pd ''sessions'' [(''year'', PInt y)] w of
        (r, w1) \<Rightarrow> (y, r) # probes cfg pd ys w1)"

text \<open>A probe returned a table, and the table is not empty.\<close>

definition has_data :: "fetch_error + 'v DataFrame \<Rightarrow> bool" where
  "has_data r = (case r of Inl _ \<Rightarrow> False | Inr df \<Rightarrow> \<not> df_empty df)"

text \<open>The requests of a discovery: for each year, \<open>k\<close> copies of its request.\<close>

definition probe_requests :: "config \<Rightarrow> int list \<Rightarrow> nat list \<Rightarrow> request list" where
  "probe_requests cfg ys ks =
     concat (map2 (\<lambda>y k. replicate k (request_of cfg ''sessions'' [(''year'', PInt y)])) ys ks)"

section \<open>CSVAgg\<close>

record CSVAgg =
  path :: string

text \<open>\<^verbatim>\<open>__init__\<close>: an existing file is removed when \<^verbatim>\<open>OVERWRITE\<close> is set.\<close>

definition CSVAgg_init :: "config \<Rightarrow> string \<Rightarrow> world \<Rightarrow> CSVAgg \<times> world" where
  "CSVAgg_init cfg p w =
     (\<lparr>path = p\<rparr>,
      if files w p \<noteq> None \<and> OVERWRITE cfg then w\<lparr>files := (files w)(p := None)\<rparr> else w)"

text \<open>\<^verbatim>\<open>_has_header\<close>: the file can be opened and its first byte read.\<close>

definition CSVAgg_has_header :: "CSVAgg \<Rightarrow> world \<Rightarrow> bool" where
  "CSVAgg_has_header self w =
     (case files w (path self) of None \<Rightarrow> False | Some bs \<Rightarrow> take 1 bs \<noteq> [])"

fun join :: "string \<Rightarrow> string list \<Rightarrow> string" where
  "join sep [] = []"
| "join sep [x] = x"
| "join sep (x # y # ys) = x @ sep @ join sep (y # ys)"

text \<open>One line of the file \<^verbatim>\<open>to_csv\<close> writes: the fields, commas between them, a line
  feed at the end. Quoting of labels is not modelled; that of cells is in \<open>csv_field\<close>.\<close>

definition csv_line :: "string list \<Rightarrow> string" where
  "csv_line fs = join '','' fs @ [CHR 0x0A]"

definition csv_rows :: "'v pandas \<Rightarrow> string list \<Rightarrow> 'v row list \<Rightarrow> string" where
  "csv_rows pd cs rs = concat (map (\<lambda>r. csv_line (map (\<lambda>c. csv_field pd (r c)) cs)) rs)"

text \<open>The text of \<^verbatim>\<open>df.to_csv(..., index=False, header=header)\<close>.\<close>

definition to_csv :: "'v pandas \<Rightarrow> 'v DataFrame \<Rightarrow> bool \<Rightarrow> string" where
  "to_csv pd df header =
     (if header then csv_line (columns df) else []) @ csv_rows pd (columns df) (rows df)"

text \<open>Writing in mode \<^verbatim>\<open>"a"\<close>: the text goes after what the file holds.\<close>

definition write_append :: "string \<Rightarrow> string \<Rightarrow> world \<Rightarrow> world" where
  "write_append p txt w =
     w\<lparr>files := (files w)(p \<mapsto> (case files w p of None \<Rightarrow> [] | Some old \<Rightarrow> old) @ txt)\<rparr>"

definition CSVAgg_append :: "'v pandas \<Rightarrow> CSVAgg \<Rightarrow> 'v DataFrame option \<Rightarrow> world \<Rightarrow> world" where
  "CSVAgg_append pd self df w =
     (case df of
        None \<Rightarrow> w
      | Some d \<Rightarrow>
          if df_empty d then w
          else let w1 = (if files w (path self) = None
                         then w\<lparr>files := (files w)(path self \<mapsto> [])\<rparr> else w)
               in write_append (path self) (to_csv pd d (\<not> CSVAgg_has_header self w1)) w1)"

text \<open>The bytes at a path; none when there is no file.\<close>

definition content :: "world \<Rightarrow> string \<Rightarrow> string" where
  "content w p = (case files w p of None \<Rightarrow> [] | Some bs \<Rightarrow> bs)"

text \<open>The tables of a run of \<^verbatim>\<open>append\<close> calls that are present and not empty.\<close>

definition appended :: "'v DataFrame option list \<Rightarrow> 'v DataFrame list" where
  "appended dfs = concat (map (\<lambda>x. case x of None \<Rightarrow> [] | Some d \<Rightarrow> if df_empty d then [] else [d]) dfs)"

section \<open>main\<close>

text \<open>The dictionary \<^verbatim>\<open>aggs\<close> has fixed keys; it is a record with one field per key.\<close>

record aggs =
  sessions_all :: CSVAgg
  meetings_all :: "CSVAgg option"
  stints :: CSVAgg
  pit :: CSVAgg
  weather :: CSVAgg
  starting_grid :: CSVAgg
  session_result :: CSVAgg
  race_control :: CSVAgg
  laps :: "CSVAgg option"

definition out_path :: "config \<Rightarrow> string \<Rightarrow> string" where
  "out_path cfg name = OUT_DIR cfg @ ''/'' @ name"

definition optional_agg :: "config \<Rightarrow> bool \<Rightarrow> string \<Rightarrow> world \<Rightarrow> CSVAgg option \<times> world" where
  "optional_agg cfg enabled name w =
     (if enabled then (case CSVAgg_init cfg (out_path cfg name) w of (a, w1) \<Rightarrow> (Some a, w1))
      else (None, w))"

definition make_aggs :: "config \<Rightarrow> world \<Rightarrow> aggs \<times> world" where
  "make_aggs cfg w0 =
     (case CSVAgg_init cfg (out_path cfg ''sessions_all.csv'') w0 of (a1, w1) \<Rightarrow>
      case optional_agg cfg (INCLUDE_MEETINGS cfg) ''meetings_all.csv'' w1 of (a2, w2) \<Rightarrow>
      case CSVAgg_init cfg (out_path cfg ''stints_all.csv'') w2 of (a3, w3) \<Rightarrow>
      case CSVAgg_init cfg (out_path cfg ''pit_all.csv'') w3 of (a4, w4) \<Rightarrow>
      case CSVAgg_init cfg (out_path cfg ''weather_all.csv'') w4 of (a5, w5) \<Rightarrow>
      case CSVAgg_init cfg (out_path cfg ''starting_grid_all.csv'') w5 of (a6, w6) \<Rightarrow>
      case CSVAgg_init cfg (out_path cfg ''session_result_all.csv'') w6 of (a7, w7) \<Rightarrow>
      case CSVAgg_init cfg (out_path cfg ''race_control_all.csv'') w7 of (a8, w8) \<Rightarrow>
      case optional_agg cfg (DOWNLOAD_LAPS cfg) ''laps_all.csv'' w8 of (a9, w9) \<Rightarrow>
        (\<lparr>sessions_all = a1, meetings_all = a2, stints = a3, pit = a4, weather = a5,
          starting_grid = a6, session_result = a7, race_control = a8, laps = a9\<rparr>, w9))"

text \<open>The endpoint list of lines 135 to 137, each with its aggregator.\<close>

definition endpoints :: "(string \<times> (aggs \<Rightarrow> CSVAgg)) list" where
  "endpoints =
     [(''stints'', stints), (''pit'', pit), (''weather'', weather),
      (''starting_grid'', starting_grid), (''session_result'', session_result),
      (''race_control'', race_control)]"

text \<open>One \<^verbatim>\<open>try\<close> block of lines 138 to 142 (and 144 to 148).\<close>

definition fetch_and_append ::
  "config \<Rightarrow> 'v pandas \<Rightarrow> int \<Rightarrow> int \<Rightarrow> string \<Rightarrow> CSVAgg \<Rightarrow> world \<Rightarrow> world" where
  "fetch_and_append cfg pd y key ep agg w =
     (case fetch_csv cfg pd ep [(''session_key'', PInt key)] w of
        (Inr df, w1) \<Rightarrow> CSVAgg_append pd agg (Some df) w1
      | (Inl e, w1) \<Rightarrow> print_stderr (EndpointWarn y key ep e) w1)"

fun for_endpoints ::
  "config \<Rightarrow> 'v pandas \<Rightarrow> aggs \<Rightarrow> int \<Rightarrow> int \<Rightarrow> (string \<times> (aggs \<Rightarrow> CSVAgg)) list \<Rightarrow> world \<Rightarrow> world"
  where
  "for_endpoints cfg pd ag y key [] w = w"
| "for_endpoints cfg pd ag y key ((ep, name) # eps) w =
     for_endpoints cfg pd ag y key eps (fetch_and_append cfg pd y key ep (name ag) w)"

definition laps_step :: "config \<Rightarrow> 'v pandas \<Rightarrow> aggs \<Rightarrow> int \<Rightarrow> int \<Rightarrow> world \<Rightarrow> world" where
  "laps_step cfg pd ag y key w =
     (case laps ag of
        Some a \<Rightarrow> if DOWNLOAD_LAPS cfg then fetch_and_append cfg pd y key ''laps'' a w else w
      | None \<Rightarrow> w)"

text \<open>\<^verbatim>\<open>int(r[sk])\<close> inside its \<^verbatim>\<open>try\<close>: \<open>None\<close> when the row has no column \<open>sk\<close>
  (\<^verbatim>\<open>KeyError\<close>) or when \<^verbatim>\<open>int\<close> raises.\<close>

definition row_key :: "'v pandas \<Rightarrow> string list \<Rightarrow> string \<Rightarrow> 'v row \<Rightarrow> int option" where
  "row_key pd cs sk r = (if sk \<in> set cs then py_int pd (r sk) else None)"

text \<open>Whether \<^verbatim>\<open>int(r[sk])\<close> gives a session key for a row.\<close>

definition convertible :: "'v pandas \<Rightarrow> string list \<Rightarrow> string \<Rightarrow> 'v row \<Rightarrow> bool" where
  "convertible pd cs sk r = (sk \<in> set cs \<and> py_int pd (r sk) \<noteq> None)"

text \<open>The body of \<^verbatim>\<open>for _, r in tgt.iterrows()\<close> (lines 131 to 148).\<close>

definition session_step ::
  "config \<Rightarrow> 'v pandas \<Rightarrow> aggs \<Rightarrow> int \<Rightarrow> string list \<Rightarrow> string \<Rightarrow> 'v row \<Rightarrow> world \<Rightarrow> world" where
  "session_step cfg pd ag y cs sk r w =
     (case row_key pd cs sk r of
        None \<Rightarrow> w
      | Some key \<Rightarrow> laps_step cfg pd ag y key (for_endpoints cfg pd ag y key endpoints w))"

fun for_rows ::
  "config \<Rightarrow> 'v pandas \<Rightarrow> aggs \<Rightarrow> int \<Rightarrow> string list \<Rightarrow> string \<Rightarrow> 'v row list \<Rightarrow> world \<Rightarrow> world"
  where
  "for_rows cfg pd ag y cs sk [] w = w"
| "for_rows cfg pd ag y cs sk (r # rs) w =
     for_rows cfg pd ag y cs sk rs (session_step cfg pd ag y cs sk r w)"

text \<open>Lines 118 to 123.\<close>

definition meetings_step :: "config \<Rightarrow> 'v pandas \<Rightarrow> aggs \<Rightarrow> int \<Rightarrow> world \<Rightarrow> world" where
  "meetings_step cfg pd ag y w =
     (case meetings_all ag of
        Some a \<Rightarrow>
          if INCLUDE_MEETINGS cfg
          then (case fetch_csv cfg pd ''meetings'' [(''year'', PInt y)] w of
                  (Inr m, w1) \<Rightarrow> CSVAgg_append pd a (Some m) w1
                | (Inl e, w1) \<Rightarrow> w1)
          else w
      | None \<Rightarrow> w)"

record totals =
  total_sessions :: nat
  total_targets :: nat

text \<open>The body of \<^verbatim>\<open>for y in years\<close> (lines 113 to 148).\<close>

definition year_step ::
  "config \<Rightarrow> 'v pandas \<Rightarrow> aggs \<Rightarrow> int \<Rightarrow> totals \<times> world \<Rightarrow> totals \<times> world" where
  "year_step cfg pd ag y tw =
     (case tw of (t, w) \<Rightarrow>
       (case fetch_csv cfg pd ''sessions'' [(''year'', PInt y)] w of
          (Inl e, w1) \<Rightarrow> (t, print_stderr (SessionsError y e) w1)
        | (Inr sessions, w1) \<Rightarrow>
            let w2 = CSVAgg_append pd (sessions_all ag) (Some sessions) w1;
                w3 = meetings_step cfg pd ag y w2;
                tgt = filter_sessions pd sessions (SESSION_SCOPE cfg);
                t' = \<lparr>total_sessions = total_sessions t + len sessions,
                      total_targets = total_targets t + len tgt\<rparr>;
                cols = lower_cols pd (columns tgt);
                sk = (case cols ''session_key'' of Some c \<Rightarrow> c | None \<Rightarrow> ''session_key'')
            in (t', for_rows cfg pd ag y (columns tgt) sk (rows tgt) w3)))"

text \<open>\<^verbatim>\<open>main\<close>: the exit status 1 when no year is found, the totals otherwise.\<close>

definition main :: "config \<Rightarrow> 'v pandas \<Rightarrow> int \<Rightarrow> world \<Rightarrow> (nat + totals) \<times> world" where
  "main cfg pd now w =
     (case available_years cfg pd now 2018 (Some now) w of
        (years, w1) \<Rightarrow>
          if years = [] then (Inl 1, print_stderr NoYears w1)
          else (case make_aggs cfg w1 of
                  (ag, w2) \<Rightarrow>
                    (case fold (year_step cfg pd ag) years
                            (\<lparr>total_sessions = 0, total_targets = 0\<rparr>, w2) of
                       (t, w3) \<Rightarrow> (Inr t, w3))))"

section \<open>Example data\<close>

text \<open>
  A library instance for concrete runs, and small tables. Its cells are text, its parser
  puts the whole body in one cell, and its case conversions change the ASCII letters
  only, as those of Python do on ASCII text; the tables below hold ASCII text.
\<close>

definition ascii_lower_char :: "char \<Rightarrow> char" where
  "ascii_lower_char c =
     (let n = (of_char c :: nat) in if 65 \<le> n \<and> n \<le> 90 then char_of (n + 32) else c)"

definition ascii_upper_char :: "char \<Rightarrow> char" where
  "ascii_upper_char c =
     (let n = (of_char c :: nat) in if 97 \<le> n \<and> n \<le> 122 then char_of (n - 32) else c)"

definition ascii_lower :: "string \<Rightarrow> string" where
  "ascii_lower s = map ascii_lower_char s"

definition ascii_upper :: "string \<Rightarrow> string" where
  "ascii_upper s = map ascii_upper_char s"

definition text_pandas :: "string pandas" where
  "text_pandas =
     \<lparr>str_lower = ascii_lower, str_upper = ascii_upper,
      astype_str = (\<lambda>s. s),
      py_int = (\<lambda>s. if s = ''9158'' then Some 9158 else None),
      csv_field = (\<lambda>s. s),
      read_csv = (\<lambda>b. Inr \<lparr>columns = [''body''], rows = [\<lambda>_. b]\<rparr>)\<rparr>"

definition name_row :: "string \<Rightarrow> string row" where
  "name_row n = (\<lambda>_. ''nan'')(''session_name'' := n)"

definition example_sessions :: "string DataFrame" where
  "example_sessions =
     \<lparr>columns = [''session_name''],
      rows = [name_row ''Race'', name_row ''Qualifying'', name_row ''Sprint'']\<rparr>"

definition only_race :: "string DataFrame" where
  "only_race = \<lparr>columns = [''session_name''], rows = [name_row ''Race'']\<rparr>"

definition only_qualifying :: "string DataFrame" where
  "only_qualifying = \<lparr>columns = [''session_name''], rows = [name_row ''Qualifying'']\<rparr>"

text \<open>
  A second instance, for a table holding the letter long s (U+017F, bytes C5 BF), which
  \<^verbatim>\<open>str.upper\<close> turns into \<^verbatim>\<open>S\<close> and \<^verbatim>\<open>str.lower\<close> leaves as it is: its upper case
  conversion does so, and is the ASCII one on every other text.
\<close>

definition long_s :: string where
  "long_s = [CHR 0xC5, CHR 0xBF]"

definition upper_with_long_s :: "string \<Rightarrow> string" where
  "upper_with_long_s s = (if s = long_s then ''S'' else ascii_upper s)"

definition long_s_pandas :: "string pandas" where
  "long_s_pandas = text_pandas\<lparr>str_upper := upper_with_long_s\<rparr>"

definition type_row :: "string \<Rightarrow> string row" where
  "type_row t = (\<lambda>_. ''nan'')(''session_type'' := t)"

definition long_s_sessions :: "string DataFrame" where
  "long_s_sessions = \<lparr>columns = [''session_type''], rows = [type_row long_s, type_row ''Q'']\<rparr>"

definition example_world :: world where
  "example_world =
     \<lparr>replies = [], requests = [], sleeps = [], files = [''data/openf1_full/stints_all.csv'' \<mapsto> ''old''], stderr = []\<rparr>"

definition race_frame :: "string DataFrame" where
  "race_frame = \<lparr>columns = [''session_name''], rows = [name_row ''Race'']\<rparr>"

definition header_only :: "string DataFrame" where
  "header_only = \<lparr>columns = [''session_name''], rows = []\<rparr>"

definition stints_path :: string where
  "stints_path = ''data/openf1_full/stints_all.csv''"

definition example_appends :: "string DataFrame option list" where
  "example_appends = [Some header_only, None, Some race_frame, Some empty_frame, Some example_sessions]"

definition example_replies :: "reply list" where
  "example_replies =
     [Raises (OtherException ''Timeout''), Response 503 ''busy'', Response 200 ''x'',
      Response 500 ''later'']"

definition failing_replies :: "reply list" where
  "failing_replies =
     [Response 500 ''a'', Raises (OtherException ''ConnectionError''), Response 502 ''b'',
      Response 503 ''c'', Response 200 ''x'']"

definition body_frame :: "string \<Rightarrow> string DataFrame" where
  "body_frame b = \<lparr>columns = [''body''], rows = [\<lambda>_. b]\<rparr>"

definition net_world :: "reply list \<Rightarrow> world" where
  "net_world rs = \<lparr>replies = rs, requests = [], sleeps = [], files = Map.empty, stderr = []\<rparr>"

definition discovery_replies :: "reply list" where
  "discovery_replies =
     [Response 200 ''x'', Response 204 [], Response 500 ''a'', Response 500 ''b'',
      Raises (OtherException ''Timeout''), Response 503 ''c'']"

definition key_row :: "string \<Rightarrow> string row" where
  "key_row k = (\<lambda>_. ''nan'')(''session_key'' := k)"

definition example_aggs :: aggs where
  "example_aggs = fst (make_aggs source_config (net_world []))"

section \<open>The column index and the mask\<close>

lemma lower_cols_fold:
  "fold (\<lambda>c m. m(str_lower pd c \<mapsto> c)) cs m k =
     (case find (\<lambda>c. str_lower pd c = k) (rev cs) of Some c \<Rightarrow> Some c | None \<Rightarrow> m k)"
  by (induction cs rule: rev_induct) auto

lemma lower_cols_ci: "lower_cols pd cs k = ci_column pd cs k"
  by (simp add: lower_cols_def lower_cols_fold ci_column_def equals_lower_def
      split: option.splits)

lemma series_or_map: "series_or (map P xs) (map Q xs) = map (\<lambda>x. P x \<or> Q x) xs"
  by (induction xs) (auto simp: series_or_def)

lemma replicate_map_False: "replicate (length xs) False = map (\<lambda>_. False) xs"
  by (induction xs) auto

lemma selection_map: "selection pd df scope = map (scope_selects pd df scope) (rows df)"
  by (auto simp: selection_def Let_def lower_cols_ci or_if_present_def series_or_map
      replicate_map_False scope_selects_def race_row_def sprint_row_def holds_def
      session_name_of_def session_type_of_def equals_lower_def contains_lower_def
      equals_upper_def str_contains_def comp_def
      split: option.splits)

lemma loc_map: "loc df (map P (rows df)) = df\<lparr>rows := filter P (rows df)\<rparr>"
proof -
  have "map snd (filter fst (zip (map P xs) xs)) = filter P xs" for xs :: "'a row list"
    by (induction xs) auto
  then show ?thesis by (simp add: loc_def)
qed

lemma filter_sessions_rows:
  "filter_sessions pd df scope =
     (if df_empty df \<or> scope = ''ALL'' \<or> \<not> (\<exists>r\<in>set (rows df). scope_selects pd df scope r) then df
      else df\<lparr>rows := filter (scope_selects pd df scope) (rows df)\<rparr>)"
  by (simp add: filter_sessions_def selection_map loc_map list_ex_iff Let_def)

section \<open>Properties of filter\_sessions\<close>

lemma example_case:
  "ascii_lower ''session_name'' = ''session_name''"
  "ascii_lower ''Race'' = ''race''"
  "ascii_lower ''Qualifying'' = ''qualifying''"
  "ascii_lower ''Sprint'' = ''sprint''"
  by code_simp+

lemmas example_simps =
  text_pandas_def name_row_def scope_selects_def race_row_def sprint_row_def holds_def
  session_name_of_def session_type_of_def ci_column_def equals_lower_def contains_lower_def
  equals_upper_def example_case sublist_code df_empty_def

lemma long_s_case:
  "ascii_lower ''session_type'' = ''session_type''"
  "ascii_upper ''Q'' = ''Q''"
  by code_simp+

lemmas long_s_simps =
  long_s_pandas_def text_pandas_def type_row_def upper_with_long_s_def long_s_def
  scope_selects_def race_row_def sprint_row_def holds_def session_name_of_def
  session_type_of_def ci_column_def equals_lower_def contains_lower_def equals_upper_def
  long_s_case df_empty_def

lemma long_s_selected:
  "scope_selects long_s_pandas long_s_sessions ''RACE_SPRINT'' (type_row long_s)"
  "\<not> scope_selects long_s_pandas long_s_sessions ''RACE_SPRINT'' (type_row ''Q'')"
  by (simp_all add: long_s_sessions_def long_s_simps)

text \<open>
  Claim C5. Under scope \<^verbatim>\<open>"ALL"\<close> \<open>filter_sessions\<close> returns its input unchanged, and
  under every scope it returns an empty table unchanged.
\<close>

theorem filter_sessions_identity:
  "filter_sessions pd T ''ALL'' = T \<and> (df_empty T \<longrightarrow> filter_sessions pd T scope = T)"
  by (simp add: filter_sessions_def)

theorem filter_sessions_identity_witness:
  "df_empty (empty_frame :: string DataFrame) \<and>
   filter_sessions text_pandas empty_frame ''RACE_SPRINT'' = empty_frame \<and>
   filter_sessions text_pandas example_sessions ''ALL'' = example_sessions"
  using filter_sessions_identity [of text_pandas empty_frame "''RACE_SPRINT''"]
    filter_sessions_identity [of text_pandas example_sessions]
  by (simp add: df_empty_def empty_frame_def)

text \<open>
  Claim C3. Under scope \<^verbatim>\<open>"RACE"\<close> or \<^verbatim>\<open>"RACE_SPRINT"\<close>, when no row of the table
  satisfies the selection predicate of the scope (said of the rows, or of the mask the
  program computes: no entry of it is true), \<open>filter_sessions\<close> returns the whole input
  unchanged, not an empty table.
\<close>

theorem filter_sessions_fail_open:
  assumes "scope = ''RACE'' \<or> scope = ''RACE_SPRINT''"
    and "(\<forall>r\<in>set (rows T). \<not> scope_selects pd T scope r) \<or>
         \<not> list_ex id (selection pd T scope)"
  shows "filter_sessions pd T scope = T"
  using assms(2) by (auto simp: filter_sessions_rows selection_map list_ex_iff)

theorem filter_sessions_fail_open_witness:
  "rows only_qualifying = [name_row ''Qualifying''] \<and>
   \<not> scope_selects text_pandas only_qualifying ''RACE_SPRINT'' (name_row ''Qualifying'') \<and>
   selection text_pandas only_qualifying ''RACE_SPRINT'' = [False] \<and>
   \<not> df_empty only_qualifying \<and>
   filter_sessions text_pandas only_qualifying ''RACE_SPRINT'' = only_qualifying"
proof -
  have s: "''RACE_SPRINT'' = ''RACE'' \<or> ''RACE_SPRINT'' = ''RACE_SPRINT''"
    by simp
  have n: "\<not> scope_selects text_pandas only_qualifying ''RACE_SPRINT'' (name_row ''Qualifying'')"
    by (simp add: only_qualifying_def example_simps)
  have r: "rows only_qualifying = [name_row ''Qualifying'']"
    by (simp add: only_qualifying_def)
  have m: "selection text_pandas only_qualifying ''RACE_SPRINT'' = [False]"
    by (simp add: selection_map r n)
  have h: "(\<forall>r\<in>set (rows only_qualifying).
        \<not> scope_selects text_pandas only_qualifying ''RACE_SPRINT'' r) \<or>
      \<not> list_ex id (selection text_pandas only_qualifying ''RACE_SPRINT'')"
    by (simp add: m)
  have e: "\<not> df_empty only_qualifying"
    by (simp add: only_qualifying_def df_empty_def)
  from filter_sessions_fail_open [OF s h] n r m e show ?thesis
    by blast
qed

text \<open>
  Claim C4. Under scope \<^verbatim>\<open>"RACE"\<close> or \<^verbatim>\<open>"RACE_SPRINT"\<close> the mask has one entry per
  row, and a row is selected exactly when its session name is \<^verbatim>\<open>race\<close> or its session
  type is \<^verbatim>\<open>R\<close>, or, under \<^verbatim>\<open>"RACE_SPRINT"\<close> only, its session name contains
  \<^verbatim>\<open>sprint\<close> or its session type is \<^verbatim>\<open>S\<close> or \<^verbatim>\<open>SPRINT\<close>. All comparisons ignore
  case by the library's conversions (lower case for names and labels, upper case for
  types), whatever these do outside ASCII; the two columns are found by label, each on
  its own, and an absent column contributes nothing.
\<close>

theorem selection_by_scope:
  assumes "scope = ''RACE'' \<or> scope = ''RACE_SPRINT''" and "i < length (rows df)"
  shows "length (selection pd df scope) = length (rows df) \<and>
    (selection pd df scope ! i \<longleftrightarrow>
       holds (session_name_of pd df (rows df ! i)) (\<lambda>n. equals_lower pd n ''race'') \<or>
       holds (session_type_of pd df (rows df ! i)) (\<lambda>t. equals_upper pd t ''R'') \<or>
       scope = ''RACE_SPRINT'' \<and>
         (holds (session_name_of pd df (rows df ! i)) (\<lambda>n. contains_lower pd n ''sprint'') \<or>
          holds (session_type_of pd df (rows df ! i))
            (\<lambda>t. equals_upper pd t ''S'' \<or> equals_upper pd t ''SPRINT'')))"
  using assms by (auto simp: selection_map scope_selects_def race_row_def sprint_row_def)

theorem selection_by_scope_witness:
  "length (rows example_sessions) = 3 \<and>
   selection text_pandas example_sessions ''RACE_SPRINT'' = [True, False, True] \<and>
   rows (filter_sessions text_pandas example_sessions ''RACE_SPRINT'') =
     [name_row ''Race'', name_row ''Sprint''] \<and>
   rows long_s_sessions ! 0 = type_row long_s \<and>
   selection long_s_pandas long_s_sessions ''RACE_SPRINT'' ! 0"
proof -
  have ll: "0 < length (rows long_s_sessions)"
    by (simp add: long_s_sessions_def)
  have lr: "rows long_s_sessions ! 0 = type_row long_s"
    "columns long_s_sessions = [''session_type'']"
    by (simp_all add: long_s_sessions_def)
  have ls: "selection long_s_pandas long_s_sessions ''RACE_SPRINT'' ! 0"
    using selection_by_scope [of "''RACE_SPRINT''" 0 long_s_sessions long_s_pandas] ll
    by (simp add: lr long_s_simps)
  have len: "length (rows example_sessions) = 3"
    by (simp add: example_sessions_def)
  have s: "''RACE_SPRINT'' = ''RACE'' \<or> ''RACE_SPRINT'' = ''RACE_SPRINT''"
    by simp
  have r: "rows example_sessions ! 0 = name_row ''Race''"
    "rows example_sessions ! Suc 0 = name_row ''Qualifying''"
    "rows example_sessions ! 2 = name_row ''Sprint''"
    by (simp_all add: example_sessions_def)
  have c: "columns example_sessions = [''session_name'']"
    by (simp add: example_sessions_def)
  have "length (selection text_pandas example_sessions ''RACE_SPRINT'') = 3"
    and "selection text_pandas example_sessions ''RACE_SPRINT'' ! 0"
    and "\<not> selection text_pandas example_sessions ''RACE_SPRINT'' ! 1"
    and "selection text_pandas example_sessions ''RACE_SPRINT'' ! 2"
    using selection_by_scope [OF s, of 0 example_sessions text_pandas]
      selection_by_scope [OF s, of 1 example_sessions text_pandas]
      selection_by_scope [OF s, of 2 example_sessions text_pandas]
    by (simp_all add: len r c example_simps)
  then have m: "selection text_pandas example_sessions ''RACE_SPRINT'' = [True, False, True]"
    by (auto simp: list_eq_iff_nth_eq less_Suc_eq numeral_3_eq_3 numeral_2_eq_2)
  have "\<not> df_empty example_sessions"
    by (simp add: example_sessions_def df_empty_def)
  then have "filter_sessions text_pandas example_sessions ''RACE_SPRINT''
      = loc example_sessions [True, False, True]"
    by (simp add: filter_sessions_def m)
  then have "rows (filter_sessions text_pandas example_sessions ''RACE_SPRINT'')
      = [name_row ''Race'', name_row ''Sprint'']"
    by (simp add: loc_def example_sessions_def)
  with m len ls lr(1) show ?thesis
    by simp
qed

text \<open>
  Claim C6, as the specification words it, asks for a strict subset. A table whose only
  row is a race is returned whole under \<^verbatim>\<open>"RACE"\<close>: some row matches, and the result is
  not a strict subset.
\<close>

theorem filter_sessions_not_strict:
  "\<not> df_empty only_race \<and> name_row ''Race'' \<in> set (rows only_race) \<and>
   scope_selects text_pandas only_race ''RACE'' (name_row ''Race'') \<and>
   filter_sessions text_pandas only_race ''RACE'' = only_race"
  by (simp add: filter_sessions_rows only_race_def example_simps)

text \<open>
  Claim C6, amended. For a non-empty table in which some row satisfies the predicate of
  the scope (the predicate of claim C4, with the library's case conversions), the result
  holds exactly the rows that satisfy it, in order: a non-empty
  subsequence of the input's rows, each satisfying the predicate, with the input's
  columns. It is the whole input exactly when every row satisfies the predicate.
\<close>

theorem filter_sessions_selected:
  assumes "\<not> df_empty T" and "\<exists>r\<in>set (rows T). scope_selects pd T scope r"
  shows "rows (filter_sessions pd T scope) = filter (scope_selects pd T scope) (rows T) \<and>
    columns (filter_sessions pd T scope) = columns T \<and>
    rows (filter_sessions pd T scope) \<noteq> [] \<and>
    subseq (rows (filter_sessions pd T scope)) (rows T) \<and>
    (\<forall>r\<in>set (rows (filter_sessions pd T scope)). scope_selects pd T scope r) \<and>
    (rows (filter_sessions pd T scope) = rows T \<longleftrightarrow>
       (\<forall>r\<in>set (rows T). scope_selects pd T scope r))"
proof -
  from assms(2) have "scope \<noteq> ''ALL''"
    by (auto simp: scope_selects_def)
  with assms have "filter_sessions pd T scope = T\<lparr>rows := filter (scope_selects pd T scope) (rows T)\<rparr>"
    by (simp add: filter_sessions_rows)
  with assms(2) show ?thesis
    by (auto simp: filter_empty_conv filter_id_conv)
qed

theorem filter_sessions_selected_witness:
  "\<not> df_empty example_sessions \<and>
   (\<exists>r\<in>set (rows example_sessions). scope_selects text_pandas example_sessions ''RACE'' r) \<and>
   rows (filter_sessions text_pandas example_sessions ''RACE'') = [name_row ''Race''] \<and>
   rows (filter_sessions text_pandas example_sessions ''RACE'') \<noteq> rows example_sessions \<and>
   rows long_s_sessions = [type_row long_s, type_row ''Q''] \<and>
   rows (filter_sessions long_s_pandas long_s_sessions ''RACE_SPRINT'') = [type_row long_s]"
proof -
  have la: "\<not> df_empty long_s_sessions"
    by (simp add: long_s_sessions_def df_empty_def)
  have lr: "rows long_s_sessions = [type_row long_s, type_row ''Q'']"
    by (simp add: long_s_sessions_def)
  have lb: "\<exists>r\<in>set (rows long_s_sessions).
      scope_selects long_s_pandas long_s_sessions ''RACE_SPRINT'' r"
    by (simp add: lr long_s_selected)
  have lc: "filter (scope_selects long_s_pandas long_s_sessions ''RACE_SPRINT'')
      (rows long_s_sessions) = [type_row long_s]"
    by (simp add: lr long_s_selected)
  have lf: "rows (filter_sessions long_s_pandas long_s_sessions ''RACE_SPRINT'') = [type_row long_s]"
    using filter_sessions_selected [OF la lb] lc by simp
  have a: "\<not> df_empty example_sessions"
    by (simp add: example_sessions_def df_empty_def)
  have b: "\<exists>r\<in>set (rows example_sessions). scope_selects text_pandas example_sessions ''RACE'' r"
    by (simp add: example_sessions_def example_simps)
  have c: "filter (scope_selects text_pandas example_sessions ''RACE'') (rows example_sessions)
      = [name_row ''Race'']"
    by (simp add: example_sessions_def example_simps)
  have d: "\<not> (\<forall>r\<in>set (rows example_sessions). scope_selects text_pandas example_sessions ''RACE'' r)"
    by (simp add: example_sessions_def example_simps)
  have e: "[name_row ''Race''] \<noteq> rows example_sessions"
    by (simp add: example_sessions_def)
  from filter_sessions_selected [OF a b] a b c d e lf lr show ?thesis
    by simp
qed

text \<open>
  Claim C9. For every table and every scope text, the rows of the result are a
  subsequence of the rows of the input, the columns are those of the input, and a
  non-empty input gives a non-empty result.
\<close>

theorem filter_sessions_subseq:
  "subseq (rows (filter_sessions pd T scope)) (rows T) \<and>
   columns (filter_sessions pd T scope) = columns T \<and>
   (\<not> df_empty T \<longrightarrow> \<not> df_empty (filter_sessions pd T scope))"
  by (auto simp: filter_sessions_rows df_empty_def filter_empty_conv)

theorem filter_sessions_subseq_witness:
  "\<not> df_empty example_sessions \<and>
   \<not> df_empty (filter_sessions text_pandas example_sessions ''SPRINT_ONLY'') \<and>
   subseq (rows (filter_sessions text_pandas example_sessions ''SPRINT_ONLY'')) (rows example_sessions)"
proof -
  have a: "\<not> df_empty example_sessions"
    by (simp add: example_sessions_def df_empty_def)
  with filter_sessions_subseq [of text_pandas example_sessions "''SPRINT_ONLY''"]
  show ?thesis by simp
qed

section \<open>Properties of CSVAgg\<close>

lemma csv_line_nonempty: "csv_line fs \<noteq> []"
  by (simp add: csv_line_def)

lemma csv_rows_Nil: "csv_rows pd cs [] = []"
  by (simp add: csv_rows_def)

lemma csv_rows_append: "csv_rows pd cs (rs @ rs') = csv_rows pd cs rs @ csv_rows pd cs rs'"
  by (simp add: csv_rows_def)

lemma csv_rows_nonempty: "rs \<noteq> [] \<Longrightarrow> csv_rows pd cs rs \<noteq> []"
  by (cases rs) (simp_all add: csv_rows_def csv_line_nonempty)

lemma append_skip:
  "CSVAgg_append pd self None w = w"
  "df_empty e \<Longrightarrow> CSVAgg_append pd self (Some e) w = w"
  by (simp_all add: CSVAgg_append_def)

lemma has_header_content: "CSVAgg_has_header self w \<longleftrightarrow> content w (path self) \<noteq> []"
  by (cases "files w (path self)") (simp_all add: CSVAgg_has_header_def content_def)

lemma append_write:
  assumes "\<not> df_empty d"
  shows "CSVAgg_append pd self (Some d) w =
    w\<lparr>files := (files w)(path self \<mapsto>
        content w (path self) @ to_csv pd d (content w (path self) = []))\<rparr>"
proof -
  let ?w1 = "if files w (path self) = None then w\<lparr>files := (files w)(path self \<mapsto> [])\<rparr> else w"
  have "CSVAgg_has_header self ?w1 \<longleftrightarrow> content w (path self) \<noteq> []"
    by (auto simp: has_header_content content_def)
  moreover have "(files ?w1)(path self \<mapsto> content ?w1 (path self) @ t) =
      (files w)(path self \<mapsto> content w (path self) @ t)" for t
    by (auto simp: content_def)
  ultimately show ?thesis
    using assms
    by (simp add: CSVAgg_append_def Let_def write_append_def content_def [symmetric]
        del: fun_upd_apply)
qed

lemma append_write_content:
  assumes "\<not> df_empty d" and "columns d = cs"
  shows "content (CSVAgg_append pd self (Some d) w) (path self) =
     content w (path self) @ (if content w (path self) = [] then csv_line cs else [])
       @ csv_rows pd cs (rows d)"
    and "content (CSVAgg_append pd self (Some d) w) (path self) \<noteq> []"
    and "files (CSVAgg_append pd self (Some d) w) (path self) \<noteq> None"
  using assms csv_rows_nonempty [of "rows d" pd cs]
  by (auto simp: append_write content_def to_csv_def df_empty_def)

lemma fold_append_content:
  assumes "\<forall>d\<in>set (appended dfs). columns d = cs"
  shows "files (fold (CSVAgg_append pd self) dfs w) (path self) =
     (if appended dfs = [] then files w (path self)
      else Some (content w (path self) @ (if content w (path self) = [] then csv_line cs else [])
             @ csv_rows pd cs (concat (map rows (appended dfs)))))"
  using assms
proof (induction dfs arbitrary: w)
  case Nil
  then show ?case by (simp add: appended_def)
next
  case (Cons x dfs)
  show ?case
  proof (cases "case x of None \<Rightarrow> True | Some d \<Rightarrow> df_empty d")
    case True
    then have "CSVAgg_append pd self x w = w" "appended (x # dfs) = appended dfs"
      by (auto simp: append_skip appended_def split: option.splits)
    with Cons show ?thesis by simp
  next
    case False
    then obtain d where x: "x = Some d" and d: "\<not> df_empty d"
      by (auto split: option.splits)
    then have app: "appended (Some d # dfs) = d # appended dfs"
      by (simp add: appended_def)
    with Cons.prems x have cs: "columns d = cs" and rest: "\<forall>d\<in>set (appended dfs). columns d = cs"
      by simp_all
    let ?w1 = "CSVAgg_append pd self (Some d) w"
    note w1 = append_write_content [OF d cs, of pd self w]
    have "files (fold (CSVAgg_append pd self) dfs ?w1) (path self) =
       (if appended dfs = [] then files ?w1 (path self)
        else Some (content ?w1 (path self) @ csv_rows pd cs (concat (map rows (appended dfs)))))"
      using Cons.IH [OF rest, of ?w1] w1(2) by simp
    moreover have "files ?w1 (path self) = Some (content ?w1 (path self))"
      using w1(3) by (auto simp: content_def)
    ultimately show ?thesis
      by (simp add: x app w1(1) csv_rows_append csv_rows_Nil)
  qed
qed

lemma init_fresh:
  assumes "CSVAgg_init cfg p w0 = (self, w)" and "OVERWRITE cfg \<or> files w0 p = None"
  shows "path self = p" and "files w p = None"
  using assms by (auto simp: CSVAgg_init_def split: if_splits)

text \<open>
  Claim C8. For an aggregator made by \<open>CSVAgg_init\<close> on a destination that is absent or
  removed by the overwrite: appending nothing or an empty table changes nothing at all (no
  file is made, nothing is written); appending a non-empty table to any world writes its
  text after the bytes already at the destination, with the header line exactly when
  there are no bytes there; and after any run of appends whose non-empty tables share their
  columns, the destination is absent if all tables were empty, and otherwise holds one
  header line followed by the rows of the non-empty tables in the order appended.
\<close>

theorem CSVAgg_header_once:
  assumes "CSVAgg_init cfg p w0 = (self, w)" and "OVERWRITE cfg \<or> files w0 p = None"
    and "\<forall>d\<in>set (appended dfs). columns d = cs"
  shows "CSVAgg_append pd self None u = u \<and>
    (df_empty e \<longrightarrow> CSVAgg_append pd self (Some e) u = u) \<and>
    (\<not> df_empty d \<longrightarrow>
       files (CSVAgg_append pd self (Some d) u) p =
         Some (content u p @ to_csv pd d (content u p = []))) \<and>
    files (fold (CSVAgg_append pd self) dfs w) p =
      (if appended dfs = [] then None
       else Some (csv_line cs @ csv_rows pd cs (concat (map rows (appended dfs)))))"
proof -
  note f = init_fresh [OF assms(1,2)]
  have "files (fold (CSVAgg_append pd self) dfs w) p =
      (if appended dfs = [] then None
       else Some (csv_line cs @ csv_rows pd cs (concat (map rows (appended dfs)))))"
    using fold_append_content [OF assms(3), of pd self w] f by (simp add: content_def)
  moreover have "\<not> df_empty d \<longrightarrow>
       files (CSVAgg_append pd self (Some d) u) p =
         Some (content u p @ to_csv pd d (content u p = []))"
    using f(1) by (auto simp: append_write)
  ultimately show ?thesis
    by (simp add: append_skip)
qed

lemma example_appended: "appended example_appends = [race_frame, example_sessions]"
  by (simp add: appended_def example_appends_def header_only_def race_frame_def empty_frame_def
      example_sessions_def df_empty_def)

theorem CSVAgg_header_once_witness:
  "files example_world stints_path = Some ''old'' \<and> OVERWRITE source_config \<and>
   appended example_appends = [race_frame, example_sessions] \<and>
   df_empty header_only \<and>
   CSVAgg_append text_pandas \<lparr>path = stints_path\<rparr> (Some header_only) example_world = example_world \<and>
   \<not> df_empty race_frame \<and>
   files (CSVAgg_append text_pandas \<lparr>path = stints_path\<rparr> (Some race_frame) example_world) stints_path
     = Some (''old'' @ ''Race'' @ [CHR 0x0A]) \<and>
   files (fold (CSVAgg_append text_pandas \<lparr>path = stints_path\<rparr>) example_appends
            (snd (CSVAgg_init source_config stints_path example_world))) stints_path
     = Some (''session_name'' @ [CHR 0x0A] @ ''Race'' @ [CHR 0x0A] @ ''Race'' @ [CHR 0x0A]
             @ ''Qualifying'' @ [CHR 0x0A] @ ''Sprint'' @ [CHR 0x0A])"
proof -
  have i: "CSVAgg_init source_config stints_path example_world =
      (\<lparr>path = stints_path\<rparr>, snd (CSVAgg_init source_config stints_path example_world))"
    by (simp add: CSVAgg_init_def)
  have o: "OVERWRITE source_config \<or> files example_world stints_path = None"
    by (simp add: source_config_def)
  have c: "\<forall>d\<in>set (appended example_appends). columns d = [''session_name'']"
    by (simp add: example_appended race_frame_def example_sessions_def)
  have e: "df_empty header_only" "\<not> df_empty race_frame"
    by (simp_all add: header_only_def race_frame_def df_empty_def)
  have f: "files example_world stints_path = Some ''old''" "content example_world stints_path = ''old''"
    by (simp_all add: example_world_def stints_path_def content_def)
  have t: "to_csv text_pandas race_frame False = ''Race'' @ [CHR 0x0A]"
    "csv_line [''session_name''] = ''session_name'' @ [CHR 0x0A]"
    "csv_rows text_pandas [''session_name''] (rows race_frame @ rows example_sessions)
       = ''Race'' @ [CHR 0x0A] @ ''Race'' @ [CHR 0x0A] @ ''Qualifying'' @ [CHR 0x0A] @ ''Sprint'' @ [CHR 0x0A]"
    by (simp_all add: to_csv_def csv_rows_def csv_line_def race_frame_def example_sessions_def
        text_pandas_def name_row_def)
  have ov: "OVERWRITE source_config"
    by (simp add: source_config_def)
  from CSVAgg_header_once [OF i o c, of text_pandas example_world header_only race_frame]
  show ?thesis
    by (simp add: e f t example_appended ov)
qed

section \<open>Properties of fetch\_csv\<close>

lemma transient_failed: "transient r \<Longrightarrow> attempt pd r = Failed (error_of r)"
  by (cases r rule: transient.cases) (auto simp: attempt_def handle_def)

lemma no_data_status:
  "st = 204 \<or> st = 400 \<or> st = 404 \<Longrightarrow> attempt pd (Response st body) = Return empty_frame"
  by (auto simp: attempt_def handle_def)

lemma last_error_snoc: "last_error (rs @ [r]) = Some (error_of r)"
  by (simp add: last_error_def)

lemma fetch_loop_failures:
  assumes "\<forall>r\<in>set fails. transient r" and "replies w = fails @ rest"
    and "length fails \<le> length as"
  shows "fetch_loop cfg pd endpoint q as err w =
     fetch_loop cfg pd endpoint q (drop (length fails) as)
       (if fails = [] then err else last_error fails)
       (w\<lparr>replies := rest,
          requests := requests w @ replicate (length fails) q,
          sleeps := sleeps w @ map (\<lambda>a. BACKOFF cfg ^ a) (take (length fails) as)\<rparr>)"
  using assms
proof (induction fails arbitrary: as err w)
  case Nil
  then have "w\<lparr>replies := rest\<rparr> = w"
    by (cases w) simp
  then show ?case by simp
next
  case (Cons r fails)
  then obtain a as' where as: "as = a # as'"
    by (cases as) auto
  let ?w1 = "time_sleep (BACKOFF cfg ^ a) (w\<lparr>replies := fails @ rest, requests := requests w @ [q]\<rparr>)"
  have le: "last_error (r # fails) = (if fails = [] then Some (error_of r) else last_error fails)"
    by (cases fails rule: rev_cases) (simp_all add: last_error_def)
  have "fetch_loop cfg pd endpoint q as err w =
      fetch_loop cfg pd endpoint q as' (Some (error_of r)) ?w1"
    using Cons.prems by (simp add: as requests_get_def transient_failed)
  also have "\<dots> =
     fetch_loop cfg pd endpoint q (drop (length fails) as')
       (if fails = [] then Some (error_of r) else last_error fails)
       (?w1\<lparr>replies := rest,
          requests := requests ?w1 @ replicate (length fails) q,
          sleeps := sleeps ?w1 @ map (\<lambda>a. BACKOFF cfg ^ a) (take (length fails) as')\<rparr>)"
    using Cons.prems by (intro Cons.IH) (simp_all add: as time_sleep_def)
  also have "\<dots> =
     fetch_loop cfg pd endpoint q (drop (length (r # fails)) as)
       (if r # fails = [] then err else last_error (r # fails))
       (w\<lparr>replies := rest,
          requests := requests w @ replicate (length (r # fails)) q,
          sleeps := sleeps w @ map (\<lambda>a. BACKOFF cfg ^ a) (take (length (r # fails)) as)\<rparr>)"
    by (simp add: as le time_sleep_def del: fetch_loop.simps)
  finally show ?case .
qed

lemma fetch_csv_loop:
  "fetch_csv cfg pd endpoint params w =
     fetch_loop cfg pd endpoint (request_of cfg endpoint params) [0..<RETRIES cfg] None w"
  by (simp add: fetch_csv_def request_of_def)

lemma fetch_csv_success:
  assumes "\<forall>r\<in>set fails. transient r" and "replies w = fails @ ok # rest"
    and "length fails < RETRIES cfg" and "attempt pd ok = Return df"
  shows "fetch_csv cfg pd endpoint params w =
     (Inr df,
      w\<lparr>replies := rest,
        requests := requests w @ replicate (Suc (length fails)) (request_of cfg endpoint params),
        sleeps := sleeps w @ delays cfg (length fails)\<rparr>)"
proof -
  let ?q = "request_of cfg endpoint params"
  let ?n = "length fails"
  let ?w1 = "w\<lparr>replies := ok # rest, requests := requests w @ replicate ?n ?q,
          sleeps := sleeps w @ delays cfg ?n\<rparr>"
  have "[?n..<RETRIES cfg] = ?n # [Suc ?n..<RETRIES cfg]"
    using assms(3) by (rule upt_conv_Cons)
  then have d: "drop ?n [0..<RETRIES cfg] = ?n # [Suc ?n..<RETRIES cfg]"
    by (simp add: drop_upt)
  have t: "take ?n [0..<RETRIES cfg] = [0..<?n]"
    using assms(3) by (simp add: take_upt)
  have "fetch_csv cfg pd endpoint params w =
     fetch_loop cfg pd endpoint ?q (drop ?n [0..<RETRIES cfg])
       (if fails = [] then None else last_error fails)
       (w\<lparr>replies := ok # rest,
          requests := requests w @ replicate ?n ?q,
          sleeps := sleeps w @ map (\<lambda>a. BACKOFF cfg ^ a) (take ?n [0..<RETRIES cfg])\<rparr>)"
    unfolding fetch_csv_loop
    using assms(3) by (intro fetch_loop_failures [OF assms(1,2)]) simp
  also have "\<dots> = fetch_loop cfg pd endpoint ?q (?n # [Suc ?n..<RETRIES cfg])
       (if fails = [] then None else last_error fails) ?w1"
    unfolding d t delays_def ..
  also have "\<dots> = (Inr df, w\<lparr>replies := rest,
        requests := requests w @ replicate (Suc ?n) ?q,
        sleeps := sleeps w @ delays cfg ?n\<rparr>)"
    using assms(4) by (simp add: requests_get_def replicate_append_same)
  finally show ?thesis .
qed

lemma fetch_csv_exhausted:
  assumes "\<forall>r\<in>set fails. transient r" and "replies w = fails @ rest"
    and "length fails = RETRIES cfg"
  shows "fetch_csv cfg pd endpoint params w =
     (Inl (RuntimeError endpoint (query (request_of cfg endpoint params)) (last_error fails)),
      w\<lparr>replies := rest,
        requests := requests w @ replicate (RETRIES cfg) (request_of cfg endpoint params),
        sleeps := sleeps w @ delays cfg (RETRIES cfg)\<rparr>)"
proof -
  let ?q = "request_of cfg endpoint params"
  have "last_error [] = None"
    by (simp add: last_error_def)
  then show ?thesis
    using fetch_loop_failures [OF assms(1,2), of "[0..<RETRIES cfg]" cfg pd endpoint ?q None]
      assms(3)
    by (simp add: fetch_csv_loop delays_def)
qed

lemma delays_increasing: "1 < BACKOFF cfg \<Longrightarrow> sorted_wrt (<) (delays cfg n)"
  by (simp add: delays_def sorted_wrt_map sorted_wrt_upt power_strict_increasing
      sorted_wrt_iff_nth_less)

text \<open>
  Claim C1. When the network answers an attempt of \<open>fetch_csv\<close> that is still within
  the retry budget (after any number of transient failures) with status 204, 400 or 404,
  the loop body returns the empty table whatever the body of the response is, and
  \<open>fetch_csv\<close> returns that empty table and no error.
\<close>

theorem fetch_csv_no_data_status:
  fixes pd :: "'v pandas"
  assumes "st = 204 \<or> st = 400 \<or> st = 404"
    and "\<forall>r\<in>set fails. transient r" and "length fails < RETRIES cfg"
    and "replies w = fails @ Response st body # rest"
  shows "attempt pd (Response st body) = Return empty_frame \<and>
    fst (fetch_csv cfg pd endpoint params w) = Inr empty_frame \<and>
    df_empty (empty_frame :: 'v DataFrame)"
proof -
  have a: "attempt pd (Response st body) = Return empty_frame"
    by (rule no_data_status [OF assms(1)])
  have "fst (fetch_csv cfg pd endpoint params w) = Inr empty_frame"
    by (simp add: fetch_csv_success [OF assms(2,4,3) a])
  with a show ?thesis
    by (simp add: df_empty_def empty_frame_def)
qed

theorem fetch_csv_no_data_status_witness:
  "transient (Raises (OtherException ''Timeout'')) \<and> transient (Response 503 ''busy'') \<and>
   2 < RETRIES source_config \<and>
   fst (fetch_csv source_config text_pandas ''stints'' [(''session_key'', PInt 9999)]
     (net_world [Raises (OtherException ''Timeout''), Response 503 ''busy'',
        Response 404 ''session_key,stint''])) = Inr empty_frame \<and>
   fst (fetch_csv source_config text_pandas ''stints'' [(''session_key'', PInt 9999)]
     (net_world [Response 400 ''session_key,stint''])) = Inr empty_frame \<and>
   fst (fetch_csv source_config text_pandas ''stints'' [(''session_key'', PInt 9999)]
     (net_world [Response 204 ''session_key,stint''])) = Inr empty_frame"
proof -
  let ?f = "[Raises (OtherException ''Timeout''), Response 503 ''busy'']"
  have r: "length ([] :: reply list) < RETRIES source_config" "2 < RETRIES source_config"
    "length ?f < RETRIES source_config"
    by (simp_all add: source_config_def)
  have t: "\<forall>r\<in>set ?f. transient r" "\<forall>r\<in>set ([] :: reply list). transient r"
    by simp_all
  have s: "(404::nat) = 204 \<or> (404::nat) = 400 \<or> (404::nat) = 404"
    "(400::nat) = 204 \<or> (400::nat) = 400 \<or> (400::nat) = 404"
    "(204::nat) = 204 \<or> (204::nat) = 400 \<or> (204::nat) = 404"
    by simp_all
  have w: "replies (net_world (?f @ [Response 404 ''session_key,stint'']))
      = ?f @ Response 404 ''session_key,stint'' # []"
    "replies (net_world [Response 400 ''session_key,stint''])
      = [] @ Response 400 ''session_key,stint'' # []"
    "replies (net_world [Response 204 ''session_key,stint''])
      = [] @ Response 204 ''session_key,stint'' # []"
    by (simp_all add: net_world_def)
  note a = fetch_csv_no_data_status [OF s(1) t(1) r(3) w(1), of text_pandas "''stints''"
      "[(''session_key'', PInt 9999)]"]
  note b = fetch_csv_no_data_status [OF s(2) t(2) r(1) w(2), of text_pandas "''stints''"
      "[(''session_key'', PInt 9999)]"]
  note c = fetch_csv_no_data_status [OF s(3) t(2) r(1) w(3), of text_pandas "''stints''"
      "[(''session_key'', PInt 9999)]"]
  have x: "transient (Raises (OtherException ''Timeout''))" "transient (Response 503 ''busy'')"
    by simp_all
  have a': "fst (fetch_csv source_config text_pandas ''stints'' [(''session_key'', PInt 9999)]
     (net_world [Raises (OtherException ''Timeout''), Response 503 ''busy'',
        Response 404 ''session_key,stint''])) = Inr empty_frame"
    using a by simp
  have b': "fst (fetch_csv source_config text_pandas ''stints'' [(''session_key'', PInt 9999)]
     (net_world [Response 400 ''session_key,stint''])) = Inr empty_frame"
    using b by simp
  have c': "fst (fetch_csv source_config text_pandas ''stints'' [(''session_key'', PInt 9999)]
     (net_world [Response 204 ''session_key,stint''])) = Inr empty_frame"
    using c by simp
  from a' b' c' r(2) x show ?thesis
    by blast
qed

text \<open>
  Claim C2. The budget \<^verbatim>\<open>RETRIES\<close> counts attempts. After \<open>N\<close> transient failures in a
  row with \<open>N < RETRIES\<close>, followed by a reply on which the loop body returns a table,
  \<open>fetch_csv\<close> returns that table, having sent \<open>N + 1\<close> requests (\<open>N\<close> retries) and
  slept \<open>BACKOFF ^ 0, \<dots>, BACKOFF ^ (N - 1)\<close>. After \<open>RETRIES\<close> transient failures in a
  row it returns the error, which carries the endpoint, the parameters sent (those of
  the caller with the \<^verbatim>\<open>csv\<close> flag) and the last exception; it has sent exactly
  \<open>RETRIES\<close> requests and left the later replies of the network untouched. The delays are
  \<open>BACKOFF ^ a\<close> for \<open>a\<close> from 0, strictly increasing when \<open>BACKOFF > 1\<close>.
\<close>

theorem fetch_csv_retry:
  assumes "\<forall>r\<in>set fails. transient r"
  shows
    "(length fails < RETRIES cfg \<and> attempt pd ok = Return df \<and> replies w = fails @ ok # rest \<longrightarrow>
        fetch_csv cfg pd endpoint params w =
          (Inr df,
           w\<lparr>replies := rest,
             requests := requests w @ replicate (Suc (length fails)) (request_of cfg endpoint params),
             sleeps := sleeps w @ delays cfg (length fails)\<rparr>)) \<and>
     (length fails = RETRIES cfg \<and> replies w = fails @ rest \<longrightarrow>
        fetch_csv cfg pd endpoint params w =
          (Inl (RuntimeError endpoint (AList.update ''csv'' (PStr ''true'') params)
                 (last_error fails)),
           w\<lparr>replies := rest,
             requests := requests w @ replicate (RETRIES cfg) (request_of cfg endpoint params),
             sleeps := sleeps w @ delays cfg (RETRIES cfg)\<rparr>)) \<and>
     delays cfg n = map (\<lambda>a. BACKOFF cfg ^ a) [0..<n] \<and>
     (1 < BACKOFF cfg \<longrightarrow> sorted_wrt (<) (delays cfg n))"
proof -
  have "query (request_of cfg endpoint params) = AList.update ''csv'' (PStr ''true'') params"
    by (simp add: request_of_def)
  then show ?thesis
    using fetch_csv_success [OF assms, of w ok rest cfg pd df endpoint params]
      fetch_csv_exhausted [OF assms, of w rest cfg pd endpoint params]
      delays_increasing [of cfg n]
    by (auto simp: delays_def)
qed

theorem fetch_csv_retry_witness:
  "fetch_csv source_config text_pandas ''stints'' [(''session_key'', PInt 9158)]
     (net_world example_replies) =
     (Inr (body_frame ''x''),
      (net_world example_replies)
        \<lparr>replies := [Response 500 ''later''],
         requests := replicate 3 (request_of source_config ''stints'' [(''session_key'', PInt 9158)]),
         sleeps := [1, 2]\<rparr>) \<and>
   fetch_csv source_config text_pandas ''stints'' [(''session_key'', PInt 9158)]
     (net_world failing_replies) =
     (Inl (RuntimeError ''stints'' [(''session_key'', PInt 9158), (''csv'', PStr ''true'')]
            (Some (HTTPError (Some 503)))),
      (net_world failing_replies)
        \<lparr>replies := [Response 200 ''x''],
         requests := replicate 4 (request_of source_config ''stints'' [(''session_key'', PInt 9158)]),
         sleeps := [1, 2, 4, 8]\<rparr>) \<and>
   sorted_wrt (<) (delays source_config 4) \<and> delays source_config 4 = [1, 2, 4, 8]"
proof -
  let ?f1 = "[Raises (OtherException ''Timeout''), Response 503 ''busy'']"
  let ?f2 = "[Response 500 ''a'', Raises (OtherException ''ConnectionError''), Response 502 ''b'',
      Response 503 ''c'']"
  have c: "RETRIES source_config = 4" "BACKOFF source_config = 2"
    by (simp_all add: source_config_def)
  have t1: "\<forall>r\<in>set ?f1. transient r" and t2: "\<forall>r\<in>set ?f2. transient r"
    by simp_all
  have ok: "attempt text_pandas (Response 200 ''x'') = Return (body_frame ''x'')"
    by (simp add: attempt_def bytes_strip_def is_space_def text_pandas_def body_frame_def)
  have d: "delays source_config (Suc (Suc 0)) = [1, 2]" "delays source_config 4 = [1, 2, 4, 8]"
    "map ((^) (2::real)) [0..<4] = [1, 2, 4, 8]"
    by (simp_all add: delays_def c upt_rec)
  have n: "replicate 3 x = [x, x, x]" for x :: request
    by (simp add: numeral_3_eq_3)
  have l: "last_error ?f2 = Some (HTTPError (Some 503))"
    by (simp add: last_error_def)
  have u: "AList.update ''csv'' (PStr ''true'') [(''session_key'', PInt 9158)]
      = [(''session_key'', PInt 9158), (''csv'', PStr ''true'')]"
    by simp
  have r1: "replies (net_world example_replies) = ?f1 @ Response 200 ''x'' # [Response 500 ''later'']"
    and r2: "replies (net_world failing_replies) = ?f2 @ [Response 200 ''x'']"
    and q: "requests (net_world rs) = []" "sleeps (net_world rs) = []" for rs
    by (simp_all add: net_world_def example_replies_def failing_replies_def)
  note a = fetch_csv_retry [OF t1, of source_config text_pandas "Response 200 ''x''"
      "body_frame ''x''" "net_world example_replies" "[Response 500 ''later'']" "''stints''"
      "[(''session_key'', PInt 9158)]" 4]
  note b = fetch_csv_retry [OF t2, of source_config text_pandas "Response 200 ''x''"
      "body_frame ''x''" "net_world failing_replies" "[Response 200 ''x'']" "''stints''"
      "[(''session_key'', PInt 9158)]" 4]
  from a b show ?thesis
    by (simp add: c ok d l u r1 r2 q n)
qed

section \<open>Properties of available\_years\<close>

lemma fetch_loop_requests:
  "\<exists>k\<le>length as. requests (snd (fetch_loop cfg pd endpoint q as err w)) = requests w @ replicate k q"
proof (induction as arbitrary: err w)
  case Nil
  then show ?case by simp
next
  case (Cons a as)
  obtain rep w1 where g: "requests_get q w = (rep, w1)"
    by (cases "requests_get q w")
  then have r1: "requests w1 = requests w @ [q]"
    by (auto simp: requests_get_def split: list.splits)
  show ?case
  proof (cases "attempt pd rep")
    case (Return df)
    with g r1 have "requests (snd (fetch_loop cfg pd endpoint q (a # as) err w)) =
        requests w @ replicate 1 q"
      by simp
    then show ?thesis
      by (intro exI [of _ 1]) simp
  next
    case (Failed e)
    let ?w2 = "time_sleep (BACKOFF cfg ^ a) w1"
    from Cons.IH [of "Some e" ?w2] obtain k where k: "k \<le> length as"
      "requests (snd (fetch_loop cfg pd endpoint q as (Some e) ?w2)) = requests ?w2 @ replicate k q"
      by blast
    have "requests (snd (fetch_loop cfg pd endpoint q (a # as) err w)) =
        requests w @ replicate (Suc k) q"
      using g Failed k(2) r1 by (simp add: time_sleep_def)
    with k(1) show ?thesis
      by (intro exI [of _ "Suc k"]) simp
  qed
qed

lemma fetch_csv_requests:
  "\<exists>k\<le>RETRIES cfg. requests (snd (fetch_csv cfg pd endpoint params w)) =
     requests w @ replicate k (request_of cfg endpoint params)"
  using fetch_loop_requests [of "[0..<RETRIES cfg]" cfg pd endpoint
      "request_of cfg endpoint params" None w]
  by (simp add: fetch_csv_loop)

lemma years_loop_probes:
  "fst (years_loop cfg pd ys yrs w) =
     yrs @ map fst (filter (\<lambda>(y, r). has_data r) (probes cfg pd ys w))"
proof (induction ys arbitrary: yrs w)
  case Nil
  then show ?case by simp
next
  case (Cons y ys)
  obtain r w1 where f: "fetch_csv cfg pd ''sessions'' [(''year'', PInt y)] w = (r, w1)"
    by (cases "fetch_csv cfg pd ''sessions'' [(''year'', PInt y)] w")
  show ?case
    using f by (cases r) (simp_all add: Cons.IH has_data_def)
qed

lemma probes_years: "map fst (probes cfg pd ys w) = ys"
  by (induction ys arbitrary: w) (auto split: prod.splits)

lemma years_loop_requests:
  "\<exists>ks. length ks = length ys \<and> (\<forall>k\<in>set ks. k \<le> RETRIES cfg) \<and>
     requests (snd (years_loop cfg pd ys yrs w)) = requests w @ probe_requests cfg ys ks"
proof (induction ys arbitrary: yrs w)
  case Nil
  then show ?case by (simp add: probe_requests_def)
next
  case (Cons y ys)
  obtain r w1 where f: "fetch_csv cfg pd ''sessions'' [(''year'', PInt y)] w = (r, w1)"
    by (cases "fetch_csv cfg pd ''sessions'' [(''year'', PInt y)] w")
  from fetch_csv_requests [of cfg pd "''sessions''" "[(''year'', PInt y)]" w] f
  obtain k where k: "k \<le> RETRIES cfg"
    "requests w1 = requests w @ replicate k (request_of cfg ''sessions'' [(''year'', PInt y)])"
    by auto
  define yrs' where "yrs' = (case r of Inr df \<Rightarrow> if \<not> df_empty df then yrs @ [y] else yrs | Inl e \<Rightarrow> yrs)"
  have step: "years_loop cfg pd (y # ys) yrs w = years_loop cfg pd ys yrs' w1"
    using f by (cases r) (simp_all add: yrs'_def)
  from Cons.IH [of yrs' w1] obtain ks where ks: "length ks = length ys"
    "\<forall>k\<in>set ks. k \<le> RETRIES cfg"
    "requests (snd (years_loop cfg pd ys yrs' w1)) = requests w1 @ probe_requests cfg ys ks"
    by blast
  have "requests (snd (years_loop cfg pd (y # ys) yrs w)) =
      requests w @ probe_requests cfg (y # ys) (k # ks)"
    unfolding step by (simp add: ks(3) k(2) probe_requests_def)
  with k(1) ks(1,2) show ?case
    by (intro exI [of _ "k # ks"]) simp
qed

text \<open>
  Claim C7. Discovery makes one call of \<open>fetch_csv\<close> for the sessions of each year from
  \<open>start_from\<close> to the end year, in ascending order, whatever the earlier calls gave; its
  result is the list of the years whose call returned a table that is not empty, so a
  year whose call failed is left out and the loop goes on; the requests sent are, year
  by year, at most \<open>RETRIES\<close> copies of the sessions request for that year. Discovery
  always returns a list. The end year is \<open>end_to\<close>, or the current year when \<open>end_to\<close>
  is absent or zero.
\<close>

theorem available_years_probes:
  "fst (available_years cfg pd now start_from end_to w) =
     map fst (filter (\<lambda>(y, r). has_data r)
       (probes cfg pd [start_from..end_year now end_to] w)) \<and>
   map fst (probes cfg pd [start_from..end_year now end_to] w) =
     [start_from..end_year now end_to] \<and>
   (\<exists>ks. length ks = length [start_from..end_year now end_to] \<and>
      (\<forall>k\<in>set ks. k \<le> RETRIES cfg) \<and>
      requests (snd (available_years cfg pd now start_from end_to w)) =
        requests w @ probe_requests cfg [start_from..end_year now end_to] ks) \<and>
   (e \<noteq> 0 \<longrightarrow> end_year now (Some e) = e) \<and> end_year now None = now"
  using years_loop_requests [of "[start_from..end_year now end_to]" cfg pd "[]" w]
  by (simp add: available_years_def years_loop_probes probes_years end_year_def)

lemma discovery_probes:
  "probes source_config text_pandas [2018, 2019, 2020] (net_world discovery_replies) =
     [(2018, Inr (body_frame ''x'')), (2019, Inr empty_frame),
      (2020, Inl (RuntimeError ''sessions'' [(''year'', PInt 2020), (''csv'', PStr ''true'')]
                   (Some (HTTPError (Some 503)))))]"
  by (simp add: discovery_replies_def net_world_def fetch_csv_def source_config_def upt_rec
      requests_get_def attempt_def handle_def bytes_strip_def is_space_def text_pandas_def
      body_frame_def time_sleep_def Let_def)

theorem available_years_probes_witness:
  "(2020::int) \<noteq> 0 \<and> end_year 2026 (Some 2020) = 2020 \<and>
   fst (available_years source_config text_pandas 2026 2018 (Some 2020)
          (net_world discovery_replies)) = [2018]"
proof -
  have u: "[2018..2020] = [2018, 2019, 2020::int]"
    by (simp add: upto_rec1)
  have e: "end_year 2026 (Some 2020) = 2020"
    by (simp add: end_year_def)
  have h: "has_data (Inr (body_frame ''x''))" "\<not> has_data (Inr (empty_frame :: string DataFrame))"
    "\<not> has_data (Inl x :: fetch_error + string DataFrame)" for x
    by (simp_all add: has_data_def body_frame_def empty_frame_def df_empty_def)
  from available_years_probes [of source_config text_pandas 2026 2018 "Some 2020"
      "net_world discovery_replies" 2020]
  show ?thesis
    by (simp add: e u discovery_probes h del: probes.simps)
qed

section \<open>Properties of the session loop\<close>

lemma session_step_skip:
  "\<not> convertible pd cs sk r \<Longrightarrow> session_step cfg pd ag y cs sk r w = w"
  by (auto simp: session_step_def row_key_def convertible_def)

lemma for_rows_filter:
  "for_rows cfg pd ag y cs sk rs w =
     for_rows cfg pd ag y cs sk (filter (convertible pd cs sk) rs) w"
  by (induction rs arbitrary: w) (simp_all add: session_step_skip)

text \<open>
  Claim C10. A target row whose session key cannot be converted to an integer (or that
  has no session key column) leaves the world as it was: no request is sent, no file is
  written, nothing is printed to standard error. The loop over the target rows does
  exactly what it does on the rows whose key can be converted.
\<close>

theorem unconvertible_session_skipped:
  "(py_int pd (r sk) = None \<longrightarrow> session_step cfg pd ag y cs sk r w = w) \<and>
   (sk \<notin> set cs \<longrightarrow> session_step cfg pd ag y cs sk r w = w) \<and>
   for_rows cfg pd ag y cs sk rs w =
     for_rows cfg pd ag y cs sk (filter (convertible pd cs sk) rs) w"
  using for_rows_filter [of cfg pd ag y cs sk rs w]
  by (simp add: session_step_skip convertible_def)

theorem unconvertible_session_skipped_witness:
  "py_int text_pandas (key_row ''n/a'' ''session_key'') = None \<and>
   session_step source_config text_pandas example_aggs 2023 [''session_key''] ''session_key''
     (key_row ''n/a'') (net_world [Response 200 ''x'']) = net_world [Response 200 ''x''] \<and>
   for_rows source_config text_pandas example_aggs 2023 [''session_key''] ''session_key''
     [key_row ''n/a'', key_row ''9158'', key_row []] (net_world [Response 200 ''x'']) =
   for_rows source_config text_pandas example_aggs 2023 [''session_key''] ''session_key''
     [key_row ''9158''] (net_world [Response 200 ''x''])"
proof -
  have n: "py_int text_pandas (key_row ''n/a'' ''session_key'') = None"
    by (simp add: text_pandas_def key_row_def)
  have f: "filter (convertible text_pandas [''session_key''] ''session_key'')
      [key_row ''n/a'', key_row ''9158'', key_row []] = [key_row ''9158'']"
    by (simp add: convertible_def text_pandas_def key_row_def)
  note t = unconvertible_session_skipped [of text_pandas "key_row ''n/a''" "''session_key''"
      source_config example_aggs 2023 "[''session_key'']" "net_world [Response 200 ''x'']"
      "[key_row ''n/a'', key_row ''9158'', key_row []]"]
  from t n have a: "session_step source_config text_pandas example_aggs 2023 [''session_key'']
      ''session_key'' (key_row ''n/a'') (net_world [Response 200 ''x'']) =
      net_world [Response 200 ''x'']"
    by blast
  from t have "for_rows source_config text_pandas example_aggs 2023 [''session_key'']
      ''session_key'' [key_row ''n/a'', key_row ''9158'', key_row []]
      (net_world [Response 200 ''x'']) =
    for_rows source_config text_pandas example_aggs 2023 [''session_key''] ''session_key''
      (filter (convertible text_pandas [''session_key''] ''session_key'')
         [key_row ''n/a'', key_row ''9158'', key_row []])
      (net_world [Response 200 ''x''])"
    by blast
  then have b: "for_rows source_config text_pandas example_aggs 2023 [''session_key'']
      ''session_key'' [key_row ''n/a'', key_row ''9158'', key_row []]
      (net_world [Response 200 ''x'']) =
    for_rows source_config text_pandas example_aggs 2023 [''session_key''] ''session_key''
      [key_row ''9158''] (net_world [Response 200 ''x''])"
    by (simp only: f)
  from n a b show ?thesis
    by blast
qed

end
